theory Spec2Isabelle
  imports Main "HOL-Library.Word"
begin

section \<open>The PNS client of \<^verbatim>\<open>src/main.py\<close>\<close>

text \<open>
  The program talks to a signal tower over one TCP socket. It packs a six byte header
  (product category, command identifier, a pad byte, a big-endian length), appends the
  payload, sends the frame, reads one reply of at most 1024 bytes and looks at the
  reply's first byte. The embedding keeps the source's functions and names. Python
  integers are \<^typ>\<open>int\<close>, a \<^verbatim>\<open>bytes\<close> value is a list of 8-bit words, every
  exception is a value of the type \<open>error\<close>, and the module-level socket together
  with the standard output is a state that each function takes and returns.
\<close>

subsection \<open>Bytes, errors and the constants of the module\<close>

type_synonym byte = "8 word"
type_synonym bytes = "byte list"

text \<open>
  The exceptions the program can raise: \<open>IndexError\<close> from indexing out of range,
  \<open>ValueError\<close> with its message (line 251, 272 and 299 raise it with the message
  \<^verbatim>\<open>negative acknowledge\<close>), \<open>StructError\<close> for \<^verbatim>\<open>struct.error\<close> and
  \<open>OSError\<close> for every failure of a socket call.
\<close>

datatype error = IndexError | ValueError string | StructError | OSError

definition PNS_PRODUCT_ID :: bytes where
  "PNS_PRODUCT_ID = [0x41, 0x42]"

definition PNS_RUN_CONTROL_COMMAND :: bytes where
  "PNS_RUN_CONTROL_COMMAND = [0x53]"

definition PNS_CLEAR_COMMAND :: bytes where
  "PNS_CLEAR_COMMAND = [0x43]"

definition PNS_GET_DATA_COMMAND :: bytes where
  "PNS_GET_DATA_COMMAND = [0x47]"

definition PNS_ACK :: int where
  "PNS_ACK = 0x06"

definition PNS_NAK :: int where
  "PNS_NAK = 0x15"

subsection \<open>Indexing, slicing and \<^verbatim>\<open>struct.pack\<close>\<close>

text \<open>
  \<^verbatim>\<open>b[i]\<close> on a \<^verbatim>\<open>bytes\<close> value with a literal index \<open>i \<ge> 0\<close>: the integer value
  of the byte, or \<open>IndexError\<close> when the value is too short.
\<close>

definition getitem :: "bytes \<Rightarrow> nat \<Rightarrow> error + int" where
  "getitem b i = (if i < length b then Inr (uint (b ! i)) else Inl IndexError)"

text \<open>The same on \<^verbatim>\<open>sys.argv\<close>, a list of strings.\<close>

definition getitem_list :: "'a list \<Rightarrow> nat \<Rightarrow> error + 'a" where
  "getitem_list xs i = (if i < length xs then Inr (xs ! i) else Inl IndexError)"

text \<open>
  \<^verbatim>\<open>b[lo:hi]\<close> with literal bounds \<open>0 \<le> lo\<close>, \<open>0 \<le> hi\<close>: slicing never raises, it
  returns what is there. \<^verbatim>\<open>b[:]\<close> is the slice from 0 to the length.
\<close>

definition slice :: "bytes \<Rightarrow> nat \<Rightarrow> nat \<Rightarrow> bytes" where
  "slice b lo hi = take (hi - lo) (drop lo b)"

definition slice_all :: "bytes \<Rightarrow> bytes" where
  "slice_all b = slice b 0 (length b)"

text \<open>Sequencing of computations that may raise.\<close>

definition bind_res :: "error + 'a \<Rightarrow> ('a \<Rightarrow> error + 'b) \<Rightarrow> error + 'b" where
  "bind_res r f = (case r of Inl e \<Rightarrow> Inl e | Inr x \<Rightarrow> f x)"

text \<open>
  \<^verbatim>\<open>struct.pack\<close> with a format of \<^verbatim>\<open>B\<close> codes only: each argument becomes one
  unsigned byte, and an argument outside \<open>0..255\<close> raises \<^verbatim>\<open>struct.error\<close>.
\<close>

fun pack_B :: "int list \<Rightarrow> error + bytes" where
  "pack_B [] = Inr []"
| "pack_B (x # xs) =
     (if 0 \<le> x \<and> x \<le> 255
      then bind_res (pack_B xs) (\<lambda>bs. Inr (word_of_int x # bs))
      else Inl StructError)"

text \<open>
  The format codes of the header \<^verbatim>\<open>'>2ssxH'\<close>. The code \<^verbatim>\<open>ns\<close> copies \<open>n\<close>
  bytes of its argument, cut or filled with zero bytes; \<^verbatim>\<open>x\<close> is one zero byte;
  \<^verbatim>\<open>H\<close> is an unsigned 16-bit integer, here big-endian (\<^verbatim>\<open>></\<close>), and a value
  outside \<open>0..65535\<close> raises \<^verbatim>\<open>struct.error\<close>. The byte order mark \<^verbatim>\<open>></\<close> also
  switches alignment padding off.
\<close>

definition pack_s :: "nat \<Rightarrow> bytes \<Rightarrow> bytes" where
  "pack_s n b = take n b @ replicate (n - length b) 0"

definition pack_H :: "int \<Rightarrow> error + bytes" where
  "pack_H x =
     (if 0 \<le> x \<and> x \<le> 65535
      then Inr [word_of_int (x div 256), word_of_int (x mod 256)]
      else Inl StructError)"

definition pack_2ssxH :: "bytes \<Rightarrow> bytes \<Rightarrow> int \<Rightarrow> error + bytes" where
  "pack_2ssxH product command data_size =
     bind_res (pack_H data_size) (\<lambda>h. Inr (pack_s 2 product @ pack_s 1 command @ [0] @ h))"

subsection \<open>The two data classes\<close>

record PnsRunControlData =
  led_red_pattern :: int
  led_amber_pattern :: int
  led_green_pattern :: int
  led_blue_pattern :: int
  led_white_pattern :: int
  buzzer_mode :: int

definition get_bytes :: "PnsRunControlData \<Rightarrow> error + bytes" where
  "get_bytes d =
     pack_B [led_red_pattern d, led_amber_pattern d, led_green_pattern d,
             led_blue_pattern d, led_white_pattern d, buzzer_mode d]"

text \<open>
  \<open>PnsStatusData\<close>: the private fields \<^verbatim>\<open>_ledPattern\<close> and \<^verbatim>\<open>_buzzer\<close>, the
  constructor, and the two properties. The constructor slices first and indexes
  second, so a value shorter than six bytes raises \<open>IndexError\<close> at \<^verbatim>\<open>data[5]\<close>.
\<close>

record PnsStatusData =
  priv_ledPattern :: bytes
  priv_buzzer :: int

definition PnsStatusData_init :: "bytes \<Rightarrow> error + PnsStatusData" where
  "PnsStatusData_init data =
     (let led = slice data 0 5
      in bind_res (getitem data 5)
           (\<lambda>bz. Inr \<lparr>priv_ledPattern = led, priv_buzzer = bz\<rparr>))"

definition ledPattern :: "PnsStatusData \<Rightarrow> bytes" where
  "ledPattern s = slice_all (priv_ledPattern s)"

definition buzzer :: "PnsStatusData \<Rightarrow> int" where
  "buzzer s = priv_buzzer s"

subsection \<open>The socket, the output and the surroundings\<close>

text \<open>
  The state records every call made on the module's socket, in order, and every line
  printed. What a socket call answers is not the program's to decide: the record
  \<open>net\<close> stands for the network and the device, telling whether connecting,
  sending and closing succeed and what \<^verbatim>\<open>recv\<close> delivers after the calls made so
  far (\<open>None\<close> when it fails). Theorems hold for every \<open>net\<close>.
\<close>

datatype call = Connect string int | Send bytes | Recv int | Close

record world =
  calls :: "call list"
  stdout :: "string list"

record net =
  connect_ok :: bool
  send_ok :: "bytes \<Rightarrow> bool"
  recv_reply :: "call list \<Rightarrow> bytes option"
  close_ok :: bool

type_synonym 'a io = "world \<Rightarrow> (error + 'a) \<times> world"

definition return_io :: "'a \<Rightarrow> 'a io" where
  "return_io x w = (Inr x, w)"

definition raise_io :: "error \<Rightarrow> 'a io" where
  "raise_io e w = (Inl e, w)"

definition lift_io :: "error + 'a \<Rightarrow> 'a io" where
  "lift_io r w = (r, w)"

definition bind_io :: "'a io \<Rightarrow> ('a \<Rightarrow> 'b io) \<Rightarrow> 'b io" where
  "bind_io m f w = (case m w of (Inl e, w') \<Rightarrow> (Inl e, w') | (Inr x, w') \<Rightarrow> f x w')"

text \<open>
  \<^verbatim>\<open>try: body finally: fin\<close>: \<open>fin\<close> runs after \<open>body\<close> whatever \<open>body\<close> did;
  an exception of \<open>fin\<close> replaces the outcome of \<open>body\<close>.
\<close>

definition try_finally :: "'a io \<Rightarrow> unit io \<Rightarrow> 'a io" where
  "try_finally body fin w =
     (case body w of (r, w1) \<Rightarrow>
        (case fin w1 of (Inl e, w2) \<Rightarrow> (Inl e, w2) | (Inr u, w2) \<Rightarrow> (r, w2)))"

definition record_call :: "call \<Rightarrow> world \<Rightarrow> world" where
  "record_call c w = w\<lparr>calls := calls w @ [c]\<rparr>"

definition print :: "string \<Rightarrow> unit io" where
  "print s w = (Inr (), w\<lparr>stdout := stdout w @ [s]\<rparr>)"

definition socket_open :: "net \<Rightarrow> string \<Rightarrow> int \<Rightarrow> unit io" where
  "socket_open n ip port w =
     (if connect_ok n then Inr () else Inl OSError, record_call (Connect ip port) w)"

definition socket_close :: "net \<Rightarrow> unit io" where
  "socket_close n w = (if close_ok n then Inr () else Inl OSError, record_call Close w)"

text \<open>
  \<open>send_command\<close>: one \<^verbatim>\<open>send\<close>, then one \<^verbatim>\<open>recv(1024)\<close>, which returns at most
  1024 bytes of what the peer delivers.
\<close>

definition send_command :: "net \<Rightarrow> bytes \<Rightarrow> bytes io" where
  "send_command n send_data w =
     (let w1 = record_call (Send send_data) w in
      if \<not> send_ok n send_data then (Inl OSError, w1)
      else
        let w2 = record_call (Recv 1024) w1 in
        (case recv_reply n (calls w2) of
           None \<Rightarrow> (Inl OSError, w2)
         | Some r \<Rightarrow> (Inr (take 1024 r), w2)))"

subsection \<open>The three commands\<close>

text \<open>The check of the response data, the same three lines in each command.\<close>

definition check_response :: "bytes \<Rightarrow> unit io" where
  "check_response recv_data =
     bind_io (lift_io (getitem recv_data 0)) (\<lambda>b.
       if b = PNS_NAK then raise_io (ValueError ''negative acknowledge'')
       else return_io ())"

definition pns_run_control_command :: "net \<Rightarrow> PnsRunControlData \<Rightarrow> unit io" where
  "pns_run_control_command n run_control_data =
     bind_io (lift_io (pack_2ssxH PNS_PRODUCT_ID PNS_RUN_CONTROL_COMMAND 6)) (\<lambda>header.
     bind_io (lift_io (get_bytes run_control_data)) (\<lambda>payload.
     bind_io (send_command n (header @ payload)) (\<lambda>recv_data.
       check_response recv_data)))"

definition pns_clear_command :: "net \<Rightarrow> unit io" where
  "pns_clear_command n =
     bind_io (lift_io (pack_2ssxH PNS_PRODUCT_ID PNS_CLEAR_COMMAND 0)) (\<lambda>send_data.
     bind_io (send_command n send_data) (\<lambda>recv_data.
       check_response recv_data))"

definition pns_get_data_command :: "net \<Rightarrow> PnsStatusData io" where
  "pns_get_data_command n =
     bind_io (lift_io (pack_2ssxH PNS_PRODUCT_ID PNS_GET_DATA_COMMAND 0)) (\<lambda>send_data.
     bind_io (send_command n send_data) (\<lambda>recv_data.
     bind_io (check_response recv_data) (\<lambda>u.
       lift_io (PnsStatusData_init recv_data))))"

subsection \<open>The front end\<close>

text \<open>
  \<^verbatim>\<open>str\<close> of an integer, for the lines \<open>main\<close> prints.
\<close>

fun str_nat :: "nat \<Rightarrow> string" where
  "str_nat n =
     (if n < 10 then [char_of (48 + n)]
      else str_nat (n div 10) @ [char_of (48 + n mod 10)])"

definition str :: "int \<Rightarrow> string" where
  "str i = (if i < 0 then CHR ''-'' # str_nat (nat (- i)) else str_nat (nat i))"

text \<open>
  The body of the \<^verbatim>\<open>try\<close> block of \<open>main\<close> (lines 138 to 171). The built-in
  \<^verbatim>\<open>int\<close> is the parameter \<open>int_of\<close>: it returns the integer a string denotes or
  raises. \<^verbatim>\<open>args[1]\<close> is read once here; the source reads it again in each
  \<^verbatim>\<open>elif\<close>, with the same result, since the first read has not raised.
\<close>

definition arg_int :: "(string \<Rightarrow> error + int) \<Rightarrow> string list \<Rightarrow> nat \<Rightarrow> int io" where
  "arg_int int_of args i = lift_io (bind_res (getitem_list args i) int_of)"

definition print_led :: "string \<Rightarrow> PnsStatusData \<Rightarrow> nat \<Rightarrow> unit io" where
  "print_led label status_data i =
     bind_io (lift_io (getitem (ledPattern status_data) i)) (\<lambda>v. print (label @ str v))"

definition dispatch :: "net \<Rightarrow> (string \<Rightarrow> error + int) \<Rightarrow> string list \<Rightarrow> unit io" where
  "dispatch n int_of args =
     (let argc = length args in
      bind_io (lift_io (getitem_list args 1)) (\<lambda>cmd.
        if cmd = ''S'' then
          (if argc \<ge> 8 then
             bind_io (arg_int int_of args 2) (\<lambda>a2.
             bind_io (arg_int int_of args 3) (\<lambda>a3.
             bind_io (arg_int int_of args 4) (\<lambda>a4.
             bind_io (arg_int int_of args 5) (\<lambda>a5.
             bind_io (arg_int int_of args 6) (\<lambda>a6.
             bind_io (arg_int int_of args 7) (\<lambda>a7.
               pns_run_control_command n
                 \<lparr>led_red_pattern = a2, led_amber_pattern = a3, led_green_pattern = a4,
                  led_blue_pattern = a5, led_white_pattern = a6, buzzer_mode = a7\<rparr>))))))
           else return_io ())
        else if cmd = ''C'' then pns_clear_command n
        else if cmd = ''G'' then
          bind_io (pns_get_data_command n) (\<lambda>status_data.
          bind_io (print ''Response data for status acquisition command'') (\<lambda>u0.
          bind_io (print_led ''LED Red pattern :'' status_data 0) (\<lambda>u1.
          bind_io (print_led ''LED Amber pattern :'' status_data 1) (\<lambda>u2.
          bind_io (print_led ''LED Green pattern :'' status_data 2) (\<lambda>u3.
          bind_io (print_led ''LED Blue pattern :'' status_data 3) (\<lambda>u4.
          bind_io (print_led ''LED White pattern :'' status_data 4) (\<lambda>u5.
            print (''buzzer mode :'' @ str (buzzer status_data)))))))))
        else return_io ()))"

text \<open>
  \<open>main\<close>: the connection is opened before the \<^verbatim>\<open>try\<close> statement, the dispatch is
  its body and \<open>socket_close\<close> its \<^verbatim>\<open>finally\<close> clause.
\<close>

definition main :: "net \<Rightarrow> (string \<Rightarrow> error + int) \<Rightarrow> string list \<Rightarrow> unit io" where
  "main n int_of args =
     bind_io (socket_open n ''192.168.10.1'' 10000) (\<lambda>u.
       try_finally (dispatch n int_of args) (socket_close n))"

subsection \<open>Observations and test surroundings\<close>

text \<open>The frames handed to \<^verbatim>\<open>send\<close>, in order, and the number of \<^verbatim>\<open>close\<close> calls.\<close>

fun sent_of :: "call list \<Rightarrow> bytes list" where
  "sent_of [] = []"
| "sent_of (Send f # cs) = f # sent_of cs"
| "sent_of (c # cs) = sent_of cs"

definition sent :: "world \<Rightarrow> bytes list" where
  "sent w = sent_of (calls w)"

definition closes :: "world \<Rightarrow> nat" where
  "closes w = count_list (calls w) Close"

text \<open>
  A network in which every call succeeds and the device answers \<open>r\<close>; one that
  refuses the connection; and the state before the program starts.
\<close>

definition replying :: "bytes \<Rightarrow> net" where
  "replying r =
     \<lparr>connect_ok = True, send_ok = (\<lambda>f. True), recv_reply = (\<lambda>cs. Some r), close_ok = True\<rparr>"

definition refusing :: net where
  "refusing =
     \<lparr>connect_ok = False, send_ok = (\<lambda>f. True), recv_reply = (\<lambda>cs. None), close_ok = True\<rparr>"

definition world0 :: world where
  "world0 = \<lparr>calls = [], stdout = []\<rparr>"

text \<open>
  The frame layout of the specification, read back: product category (2 bytes), command
  identifier (1 byte), pad (1 byte), data length (2 bytes, big-endian), then the payload,
  which is every byte after the header. This parser is not part of the program; it
  follows the specification's frame table and serves to state the round trip.
\<close>

record frame_header =
  product_id :: bytes
  command_id :: byte
  data_length :: nat
  payload :: bytes

definition spec_parse_frame :: "bytes \<Rightarrow> frame_header option" where
  "spec_parse_frame f =
     (case f of
        p0 # p1 # c # pad # hi # lo # rest \<Rightarrow>
          Some \<lparr>product_id = [p0, p1], command_id = c,
                data_length = 256 * unat hi + unat lo, payload = rest\<rparr>
      | _ \<Rightarrow> None)"

text \<open>A frame is consistent when its data length field is the length of its payload.\<close>

definition frame_consistent :: "bytes \<Rightarrow> bool" where
  "frame_consistent f =
     (case spec_parse_frame f of
        None \<Rightarrow> False
      | Some h \<Rightarrow> data_length h = length (payload h))"

subsection \<open>The status data as objects\<close>

text \<open>
  Whether the property \<^verbatim>\<open>ledPattern\<close> hands out a copy is a question about the
  identity of objects, which the definitions on values above cannot ask. Here a
  \<^verbatim>\<open>bytes\<close> object is named by a reference. The empty \<^verbatim>\<open>bytes\<close> object and the 256
  objects of one byte are shared by the interpreter; every other object sits in a
  heap, at the position it was allocated at. No operation writes to a \<^verbatim>\<open>bytes\<close>
  object, so the heap only grows.
\<close>

datatype ref = Empty_bytes | Single_byte byte | Obj nat

type_synonym heap = "bytes list"

fun bytes_at :: "heap \<Rightarrow> ref \<Rightarrow> bytes" where
  "bytes_at h Empty_bytes = []"
| "bytes_at h (Single_byte x) = [x]"
| "bytes_at h (Obj i) = h ! i"

fun valid_ref :: "heap \<Rightarrow> ref \<Rightarrow> bool" where
  "valid_ref h (Obj i) = (i < length h)"
| "valid_ref h r = True"

definition new_bytes :: "bytes \<Rightarrow> heap \<Rightarrow> ref \<times> heap" where
  "new_bytes b h =
     (case b of
        [] \<Rightarrow> (Empty_bytes, h)
      | [x] \<Rightarrow> (Single_byte x, h)
      | x # y # ys \<Rightarrow> (Obj (length h), h @ [b]))"

text \<open>
  \<^verbatim>\<open>b[lo:hi]\<close> on a \<^verbatim>\<open>bytes\<close> object, as CPython's \<^verbatim>\<open>bytes_subscript\<close> computes
  it for a slice of step 1: an empty result is the shared empty object; a slice that
  starts at 0 and has the length of \<^verbatim>\<open>b\<close> is \<^verbatim>\<open>b\<close> itself, no new object; any other
  slice is a new object. \<^verbatim>\<open>b[:]\<close> is the slice from 0 to the length.
\<close>

definition slice_obj :: "ref \<Rightarrow> nat \<Rightarrow> nat \<Rightarrow> heap \<Rightarrow> ref \<times> heap" where
  "slice_obj r lo hi h =
     (let b = bytes_at h r; s = slice b lo hi in
      if s = [] then (Empty_bytes, h)
      else if lo = 0 \<and> length s = length b then (r, h)
      else new_bytes s h)"

definition slice_all_obj :: "ref \<Rightarrow> heap \<Rightarrow> ref \<times> heap" where
  "slice_all_obj r h = slice_obj r 0 (length (bytes_at h r)) h"

text \<open>
  The class \<open>PnsStatusData\<close> once more, its field \<^verbatim>\<open>_ledPattern\<close> now a reference.
  The constructor and the property are the source's, line by line.
\<close>

record PnsStatusData_obj =
  ref_ledPattern :: ref
  obj_buzzer :: int

definition PnsStatusData_init_obj :: "ref \<Rightarrow> heap \<Rightarrow> (error + PnsStatusData_obj) \<times> heap" where
  "PnsStatusData_init_obj data h =
     (case slice_obj data 0 5 h of
        (led, h1) \<Rightarrow>
          (case getitem (bytes_at h1 data) 5 of
             Inl e \<Rightarrow> (Inl e, h1)
           | Inr bz \<Rightarrow> (Inr \<lparr>ref_ledPattern = led, obj_buzzer = bz\<rparr>, h1)))"

definition ledPattern_obj :: "PnsStatusData_obj \<Rightarrow> heap \<Rightarrow> ref \<times> heap" where
  "ledPattern_obj s h = slice_all_obj (ref_ledPattern s) h"

section \<open>Properties\<close>

subsection \<open>Headers, sequencing and the response check\<close>

lemma header_S: "pack_2ssxH PNS_PRODUCT_ID PNS_RUN_CONTROL_COMMAND 6 = Inr [0x41, 0x42, 0x53, 0, 0, 6]"
  by (simp add: pack_2ssxH_def pack_H_def pack_s_def bind_res_def
      PNS_PRODUCT_ID_def PNS_RUN_CONTROL_COMMAND_def)

lemma header_C: "pack_2ssxH PNS_PRODUCT_ID PNS_CLEAR_COMMAND 0 = Inr [0x41, 0x42, 0x43, 0, 0, 0]"
  by (simp add: pack_2ssxH_def pack_H_def pack_s_def bind_res_def
      PNS_PRODUCT_ID_def PNS_CLEAR_COMMAND_def)

lemma header_G: "pack_2ssxH PNS_PRODUCT_ID PNS_GET_DATA_COMMAND 0 = Inr [0x41, 0x42, 0x47, 0, 0, 0]"
  by (simp add: pack_2ssxH_def pack_H_def pack_s_def bind_res_def
      PNS_PRODUCT_ID_def PNS_GET_DATA_COMMAND_def)

lemma bind_io_lift_Inr: "bind_io (lift_io (Inr x)) f = f x"
  by (rule ext) (simp add: bind_io_def lift_io_def)

lemma bind_io_lift_Inl: "bind_io (lift_io (Inl e)) f w = (Inl e, w)"
  by (simp add: bind_io_def lift_io_def)

lemma nak_byte: "(uint (b :: byte) = PNS_NAK) = (b = 0x15)"
proof -
  have "uint (0x15 :: byte) = PNS_NAK" by (simp add: PNS_NAK_def)
  then show ?thesis by (metis word_uint_eq_iff)
qed

lemma check_response_eq:
  "check_response r w =
     (if r = [] then Inl IndexError
      else if hd r = 0x15 then Inl (ValueError ''negative acknowledge'')
      else Inr (), w)"
  by (cases r)
     (simp_all add: check_response_def getitem_def bind_io_lift_Inl bind_io_lift_Inr
        raise_io_def return_io_def nak_byte)

lemma clear_eq: "pns_clear_command n = bind_io (send_command n [0x41, 0x42, 0x43, 0, 0, 0]) check_response"
  by (simp add: pns_clear_command_def header_C bind_io_lift_Inr)

lemma get_data_eq:
  "pns_get_data_command n =
     bind_io (send_command n [0x41, 0x42, 0x47, 0, 0, 0]) (\<lambda>r.
       bind_io (check_response r) (\<lambda>u. lift_io (PnsStatusData_init r)))"
  by (simp add: pns_get_data_command_def header_G bind_io_lift_Inr)

lemma run_control_eq:
  "get_bytes d = Inr p \<Longrightarrow>
   pns_run_control_command n d =
     bind_io (send_command n ([0x41, 0x42, 0x53, 0, 0, 6] @ p)) check_response"
  by (simp add: pns_run_control_command_def header_S bind_io_lift_Inr)

lemma run_control_pack_error:
  "get_bytes d = Inl e \<Longrightarrow> pns_run_control_command n d w = (Inl e, w)"
  by (simp add: pns_run_control_command_def header_S bind_io_lift_Inr bind_io_lift_Inl)

lemma sent_of_append: "sent_of (xs @ ys) = sent_of xs @ sent_of ys"
  by (induction xs rule: sent_of.induct) simp_all

lemma sent_send_command: "sent (snd (send_command n f w)) = sent w @ [f]"
  by (simp add: send_command_def sent_def record_call_def sent_of_append Let_def
      split: option.split)

lemma send_then_check_world:
  "snd (bind_io (send_command n f) check_response w) = snd (send_command n f w)"
  by (cases "send_command n f w" rule: prod.exhaust[where 'a = "error + bytes"])
     (auto simp: bind_io_def check_response_eq split: sum.split)


lemma get_data_world:
  "snd (pns_get_data_command n w) = snd (send_command n [0x41, 0x42, 0x47, 0, 0, 0] w)"
  by (cases "send_command n [0x41, 0x42, 0x47, 0, 0, 0] w" rule: prod.exhaust[where 'a = "error + bytes"])
     (auto simp: get_data_eq bind_io_def check_response_eq lift_io_def split: sum.split)

lemma get_bytes_example:
  "get_bytes \<lparr>led_red_pattern = 1, led_amber_pattern = 0, led_green_pattern = 2,
      led_blue_pattern = 0, led_white_pattern = 9, buzzer_mode = 1\<rparr> = Inr [1, 0, 2, 0, 9, 1]"
  by (simp add: get_bytes_def bind_res_def)

text \<open>
  Claim C3. The encoded frames are bit-exact: the run control data (1,0,2,0,9,1) encodes
  to the six bytes 01 00 02 00 09 01, the run control frame handed to \<^verbatim>\<open>send\<close> is
  41 42 53 00 00 06 01 00 02 00 09 01, the clear frame is 41 42 43 00 00 00 and the
  get data frame is 41 42 47 00 00 00, the last two with a zero length and no payload.
  Each command hands exactly one frame to \<^verbatim>\<open>send\<close>, whatever the network does.
\<close>

theorem frames_bit_exact:
  "get_bytes \<lparr>led_red_pattern = 1, led_amber_pattern = 0, led_green_pattern = 2,
      led_blue_pattern = 0, led_white_pattern = 9, buzzer_mode = 1\<rparr>
     = Inr [0x01, 0x00, 0x02, 0x00, 0x09, 0x01]
   \<and> sent (snd (pns_run_control_command n
        \<lparr>led_red_pattern = 1, led_amber_pattern = 0, led_green_pattern = 2,
         led_blue_pattern = 0, led_white_pattern = 9, buzzer_mode = 1\<rparr> w))
     = sent w @ [[0x41, 0x42, 0x53, 0x00, 0x00, 0x06, 0x01, 0x00, 0x02, 0x00, 0x09, 0x01]]
   \<and> sent (snd (pns_clear_command n w)) = sent w @ [[0x41, 0x42, 0x43, 0x00, 0x00, 0x00]]
   \<and> sent (snd (pns_get_data_command n w)) = sent w @ [[0x41, 0x42, 0x47, 0x00, 0x00, 0x00]]"
proof -
  have "sent (snd (pns_clear_command n w)) = sent w @ [[0x41, 0x42, 0x43, 0x00, 0x00, 0x00]]"
    by (simp add: clear_eq send_then_check_world sent_send_command)
  moreover have "sent (snd (pns_get_data_command n w)) = sent w @ [[0x41, 0x42, 0x47, 0x00, 0x00, 0x00]]"
    by (simp add: get_data_world sent_send_command)
  moreover have "sent (snd (pns_run_control_command n
        \<lparr>led_red_pattern = 1, led_amber_pattern = 0, led_green_pattern = 2,
         led_blue_pattern = 0, led_white_pattern = 9, buzzer_mode = 1\<rparr> w))
     = sent w @ [[0x41, 0x42, 0x53, 0x00, 0x00, 0x06, 0x01, 0x00, 0x02, 0x00, 0x09, 0x01]]"
    by (simp add: run_control_eq[OF get_bytes_example] send_then_check_world sent_send_command)
  ultimately show ?thesis
    using get_bytes_example by simp
qed

lemma slice_0_5:
  "6 \<le> length r \<Longrightarrow> slice r 0 5 = [r ! 0, r ! 1, r ! 2, r ! 3, r ! 4]"
  by (auto simp: numeral_eq_Suc Suc_le_length_iff slice_def)

lemma init_long:
  "6 \<le> length r \<Longrightarrow>
   PnsStatusData_init r = Inr \<lparr>priv_ledPattern = slice r 0 5, priv_buzzer = uint (r ! 5)\<rparr>"
  by (simp add: PnsStatusData_init_def getitem_def bind_res_def)

lemma init_short: "length r < 6 \<Longrightarrow> PnsStatusData_init r = Inl IndexError"
  by (simp add: PnsStatusData_init_def getitem_def bind_res_def)

lemma ledPattern_stored: "ledPattern s = priv_ledPattern s"
  by (simp add: ledPattern_def slice_all_def slice_def)

text \<open>
  Claim C1, amended. For every get data reply that passes the response check and has at
  least six bytes, the status returned by \<open>pns_get_data_command\<close> reports the LED
  patterns from reply offsets 0 to 4 (red, amber, green, blue, white) and the buzzer
  mode from reply offset 5: the constructor decodes the raw reply, first byte included.
\<close>

theorem get_data_reads_offsets_0_to_5:
  assumes "send_command n [0x41, 0x42, 0x47, 0, 0, 0] w = (Inr reply, w')"
      and "6 \<le> length reply" and "hd reply \<noteq> 0x15"
  shows "\<exists>st. pns_get_data_command n w = (Inr st, w')
          \<and> ledPattern st = [reply ! 0, reply ! 1, reply ! 2, reply ! 3, reply ! 4]
          \<and> buzzer st = uint (reply ! 5)"
proof -
  from assms(2) have ne: "reply \<noteq> []" by auto
  have "pns_get_data_command n w = (PnsStatusData_init reply, w')"
    using assms(3) ne
    by (simp add: get_data_eq assms(1) check_response_eq bind_io_def lift_io_def)
  then show ?thesis
    using assms(2) by (simp add: init_long ledPattern_stored buzzer_def slice_0_5)
qed

lemma send_replying:
  "send_command (replying r) f world0 = (Inr (take 1024 r), \<lparr>calls = [Send f, Recv 1024], stdout = []\<rparr>)"
  by (simp add: send_command_def replying_def world0_def record_call_def)

theorem get_data_reads_offsets_0_to_5_witness:
  "\<exists>st. pns_get_data_command (replying [0x06, 1, 2, 3, 4, 5, 9]) world0
           = (Inr st, \<lparr>calls = [Send [0x41, 0x42, 0x47, 0, 0, 0], Recv 1024], stdout = []\<rparr>)
        \<and> ledPattern st = [0x06, 1, 2, 3, 4] \<and> buzzer st = 5"
  using get_data_reads_offsets_0_to_5
    [of "replying [0x06, 1, 2, 3, 4, 5, 9]" world0 "[0x06, 1, 2, 3, 4, 5, 9]"
        "\<lparr>calls = [Send [0x41, 0x42, 0x47, 0, 0, 0], Recv 1024], stdout = []\<rparr>"]
  by (simp add: send_replying)

text \<open>
  Claim C1 as stated fails: the seven byte reply 06 01 02 03 04 05 09 passes the check,
  and the status reports the LED patterns 06 01 02 03 04 and the buzzer mode 5, not
  the bytes at offsets 1 to 5 and the byte at offset 6.
\<close>

theorem get_data_offsets_1_to_6_counterexample:
  "fst (check_response [0x06, 1, 2, 3, 4, 5, 9] world0) = Inr ()
   \<and> fst (pns_get_data_command (replying [0x06, 1, 2, 3, 4, 5, 9]) world0)
       = Inr \<lparr>priv_ledPattern = [0x06, 1, 2, 3, 4], priv_buzzer = 5\<rparr>
   \<and> ledPattern \<lparr>priv_ledPattern = [0x06, 1, 2, 3, 4], priv_buzzer = 5\<rparr>
       \<noteq> slice [0x06, 1, 2, 3, 4, 5, 9] 1 6
   \<and> buzzer \<lparr>priv_ledPattern = [0x06, 1, 2, 3, 4], priv_buzzer = 5\<rparr>
       \<noteq> uint ([0x06, 1, 2, 3, 4, 5, 9 :: byte] ! 6)"
  by (simp add: check_response_eq get_data_eq send_replying bind_io_def
      lift_io_def init_long slice_def ledPattern_stored buzzer_def)


lemma send_then_check:
  "send_command n f w = (Inr reply, w') \<Longrightarrow> reply \<noteq> [] \<Longrightarrow>
   bind_io (send_command n f) check_response w =
     (if hd reply = 0x15 then Inl (ValueError ''negative acknowledge'') else Inr (), w')"
  by (simp add: bind_io_def check_response_eq)

lemma get_data_after_reply:
  "send_command n [0x41, 0x42, 0x47, 0, 0, 0] w = (Inr reply, w') \<Longrightarrow> reply \<noteq> [] \<Longrightarrow>
   pns_get_data_command n w =
     (if hd reply = 0x15 then Inl (ValueError ''negative acknowledge'')
      else PnsStatusData_init reply, w')"
  by (simp add: get_data_eq bind_io_def check_response_eq lift_io_def)

lemma init_not_value_error: "PnsStatusData_init r \<noteq> Inl (ValueError m)"
  by (simp add: PnsStatusData_init_def getitem_def bind_res_def)

text \<open>
  Claim C2, amended. For every non-empty reply, each of \<open>pns_run_control_command\<close>,
  \<open>pns_clear_command\<close> and \<open>pns_get_data_command\<close> raises the negative acknowledge
  error if and only if the first byte of the reply is 0x15. Any other first byte, 0x06
  or not, passes the check: run control and clear return normally; get data returns
  the status when the reply has at least six bytes, and raises \<open>IndexError\<close> at
  \<^verbatim>\<open>data[5]\<close> when the reply is shorter.
\<close>

theorem negative_acknowledge_iff_first_byte_nak:
  assumes "reply \<noteq> []"
  shows "(get_bytes d = Inr p \<and>
            send_command n ([0x41, 0x42, 0x53, 0, 0, 6] @ p) w = (Inr reply, w') \<longrightarrow>
            (fst (pns_run_control_command n d w) = Inl (ValueError ''negative acknowledge'')
               \<longleftrightarrow> hd reply = 0x15)
            \<and> (hd reply \<noteq> 0x15 \<longrightarrow> pns_run_control_command n d w = (Inr (), w')))
       \<and> (send_command n [0x41, 0x42, 0x43, 0, 0, 0] w = (Inr reply, w') \<longrightarrow>
            (fst (pns_clear_command n w) = Inl (ValueError ''negative acknowledge'')
               \<longleftrightarrow> hd reply = 0x15)
            \<and> (hd reply \<noteq> 0x15 \<longrightarrow> pns_clear_command n w = (Inr (), w')))
       \<and> (send_command n [0x41, 0x42, 0x47, 0, 0, 0] w = (Inr reply, w') \<longrightarrow>
            (fst (pns_get_data_command n w) = Inl (ValueError ''negative acknowledge'')
               \<longleftrightarrow> hd reply = 0x15)
            \<and> (hd reply \<noteq> 0x15 \<and> 6 \<le> length reply \<longrightarrow>
                  pns_get_data_command n w =
                    (Inr \<lparr>priv_ledPattern = slice reply 0 5, priv_buzzer = uint (reply ! 5)\<rparr>,
                     w'))
            \<and> (hd reply \<noteq> 0x15 \<and> length reply < 6 \<longrightarrow>
                  pns_get_data_command n w = (Inl IndexError, w')))"
proof (intro conjI impI)
  assume a: "get_bytes d = Inr p \<and>
    send_command n ([0x41, 0x42, 0x53, 0, 0, 6] @ p) w = (Inr reply, w')"
  then have r: "pns_run_control_command n d w =
      (if hd reply = 0x15 then Inl (ValueError ''negative acknowledge'') else Inr (), w')"
    using assms send_then_check[of n "[0x41, 0x42, 0x53, 0, 0, 6] @ p" w reply w']
    by (simp add: run_control_eq)
  show "(fst (pns_run_control_command n d w) = Inl (ValueError ''negative acknowledge''))
      = (hd reply = 0x15)"
    by (simp add: r)
  show "pns_run_control_command n d w = (Inr (), w')" if "hd reply \<noteq> 0x15"
    using that by (simp add: r)
next
  assume a: "send_command n [0x41, 0x42, 0x43, 0, 0, 0] w = (Inr reply, w')"
  have r: "pns_clear_command n w =
      (if hd reply = 0x15 then Inl (ValueError ''negative acknowledge'') else Inr (), w')"
    using assms send_then_check[OF a] by (simp add: clear_eq)
  show "(fst (pns_clear_command n w) = Inl (ValueError ''negative acknowledge''))
      = (hd reply = 0x15)"
    by (simp add: r)
  show "pns_clear_command n w = (Inr (), w')" if "hd reply \<noteq> 0x15"
    using that by (simp add: r)
next
  assume a: "send_command n [0x41, 0x42, 0x47, 0, 0, 0] w = (Inr reply, w')"
  note r = get_data_after_reply[OF a assms]
  show "(fst (pns_get_data_command n w) = Inl (ValueError ''negative acknowledge''))
      = (hd reply = 0x15)"
    by (simp add: r init_not_value_error)
  show "pns_get_data_command n w =
          (Inr \<lparr>priv_ledPattern = slice reply 0 5, priv_buzzer = uint (reply ! 5)\<rparr>, w')"
    if "hd reply \<noteq> 0x15 \<and> 6 \<le> length reply"
    using that by (simp add: r init_long)
  show "pns_get_data_command n w = (Inl IndexError, w')"
    if "hd reply \<noteq> 0x15 \<and> length reply < 6"
    using that by (simp add: r init_short)
qed

theorem negative_acknowledge_iff_first_byte_nak_witness:
  "pns_run_control_command (replying [0x07, 1, 2, 3, 4, 9])
       \<lparr>led_red_pattern = 1, led_amber_pattern = 0, led_green_pattern = 2,
        led_blue_pattern = 0, led_white_pattern = 9, buzzer_mode = 1\<rparr> world0
     = (Inr (), \<lparr>calls = [Send [0x41, 0x42, 0x53, 0, 0, 6, 1, 0, 2, 0, 9, 1], Recv 1024],
                 stdout = []\<rparr>)
   \<and> pns_clear_command (replying [0x07, 1, 2, 3, 4, 9]) world0
     = (Inr (), \<lparr>calls = [Send [0x41, 0x42, 0x43, 0, 0, 0], Recv 1024], stdout = []\<rparr>)
   \<and> pns_get_data_command (replying [0x07, 1, 2, 3, 4, 9]) world0
     = (Inr \<lparr>priv_ledPattern = [0x07, 1, 2, 3, 4], priv_buzzer = 9\<rparr>,
        \<lparr>calls = [Send [0x41, 0x42, 0x47, 0, 0, 0], Recv 1024], stdout = []\<rparr>)
   \<and> pns_get_data_command (replying [0x07, 1]) world0
     = (Inl IndexError,
        \<lparr>calls = [Send [0x41, 0x42, 0x47, 0, 0, 0], Recv 1024], stdout = []\<rparr>)
   \<and> fst (pns_clear_command (replying [0x15]) world0) = Inl (ValueError ''negative acknowledge'')"
  using
    negative_acknowledge_iff_first_byte_nak
      [where reply = "[0x07, 1, 2, 3, 4, 9]" and n = "replying [0x07, 1, 2, 3, 4, 9]"
         and w = world0 and p = "[1, 0, 2, 0, 9, 1]"
         and d = "\<lparr>led_red_pattern = 1, led_amber_pattern = 0, led_green_pattern = 2,
                   led_blue_pattern = 0, led_white_pattern = 9, buzzer_mode = 1\<rparr>"
         and w' = "\<lparr>calls = [Send [0x41, 0x42, 0x53, 0, 0, 6, 1, 0, 2, 0, 9, 1], Recv 1024],
                    stdout = []\<rparr>"]
    negative_acknowledge_iff_first_byte_nak
      [where reply = "[0x07, 1, 2, 3, 4, 9]" and n = "replying [0x07, 1, 2, 3, 4, 9]"
         and w = world0
         and w' = "\<lparr>calls = [Send [0x41, 0x42, 0x43, 0, 0, 0], Recv 1024], stdout = []\<rparr>"]
    negative_acknowledge_iff_first_byte_nak
      [where reply = "[0x07, 1, 2, 3, 4, 9]" and n = "replying [0x07, 1, 2, 3, 4, 9]"
         and w = world0
         and w' = "\<lparr>calls = [Send [0x41, 0x42, 0x47, 0, 0, 0], Recv 1024], stdout = []\<rparr>"]
    negative_acknowledge_iff_first_byte_nak
      [where reply = "[0x07, 1]" and n = "replying [0x07, 1]" and w = world0
         and w' = "\<lparr>calls = [Send [0x41, 0x42, 0x47, 0, 0, 0], Recv 1024], stdout = []\<rparr>"]
    negative_acknowledge_iff_first_byte_nak
      [where reply = "[0x15]" and n = "replying [0x15]" and w = world0
         and w' = "\<lparr>calls = [Send [0x41, 0x42, 0x43, 0, 0, 0], Recv 1024], stdout = []\<rparr>"]
  by (simp add: send_replying get_bytes_example slice_def)

text \<open>
  Claim C2 as stated fails for get data: the one byte reply 06 is not empty and its
  first byte is not 0x15, yet \<open>pns_get_data_command\<close> does not succeed on it: the
  constructor of the status raises \<open>IndexError\<close>.
\<close>

theorem get_data_non_nak_reply_counterexample:
  "[0x06 :: byte] \<noteq> []
   \<and> hd [0x06 :: byte] \<noteq> 0x15
   \<and> pns_get_data_command (replying [0x06]) world0
       = (Inl IndexError,
          \<lparr>calls = [Send [0x41, 0x42, 0x47, 0, 0, 0], Recv 1024], stdout = []\<rparr>)"
  by (simp add: get_data_eq send_replying bind_io_def check_response_eq lift_io_def init_short)

subsection \<open>Encoding of the run control data\<close>

lemma pack_B_in_range:
  "\<forall>x \<in> set xs. 0 \<le> x \<and> x \<le> 255 \<Longrightarrow> pack_B xs = Inr (map word_of_int xs)"
  by (induction xs) (simp_all add: bind_res_def)

lemma pack_B_out_of_range:
  "\<exists>x \<in> set xs. \<not> (0 \<le> x \<and> x \<le> 255) \<Longrightarrow> pack_B xs = Inl StructError"
proof (induction xs)
  case Nil
  then show ?case by simp
next
  case (Cons x xs)
  show ?case
  proof (cases "0 \<le> x \<and> x \<le> 255")
    case True
    with Cons.prems have "\<exists>y \<in> set xs. \<not> (0 \<le> y \<and> y \<le> 255)" by auto
    then have "pack_B xs = Inl StructError" by (rule Cons.IH)
    with True show ?thesis by (simp add: bind_res_def)
  next
    case False
    have "pack_B (x # xs) = (if 0 \<le> x \<and> x \<le> 255
        then bind_res (pack_B xs) (\<lambda>bs. Inr (word_of_int x # bs)) else Inl StructError)"
      by (rule pack_B.simps)
    also have "\<dots> = Inl StructError"
      using False by (rule if_not_P)
    finally show ?thesis .
  qed
qed

lemma uint_byte_of_int: "0 \<le> x \<Longrightarrow> x \<le> 255 \<Longrightarrow> uint (word_of_int x :: byte) = x"
  by (simp add: uint_word_of_int take_bit_eq_mod)

lemma map_uint_bytes_of_int:
  "\<forall>x \<in> set xs. 0 \<le> x \<and> x \<le> 255 \<Longrightarrow> map uint (map word_of_int xs :: bytes) = xs"
  by (induction xs) (simp_all add: uint_byte_of_int)

lemma get_bytes_in_range:
  assumes "\<forall>x \<in> set [led_red_pattern d, led_amber_pattern d, led_green_pattern d,
                 led_blue_pattern d, led_white_pattern d, buzzer_mode d]. 0 \<le> x \<and> x \<le> 255"
  shows "get_bytes d = Inr (map word_of_int [led_red_pattern d, led_amber_pattern d,
           led_green_pattern d, led_blue_pattern d, led_white_pattern d, buzzer_mode d])"
  unfolding get_bytes_def by (rule pack_B_in_range[OF assms])

lemma get_bytes_out_of_range:
  assumes "\<exists>x \<in> set [led_red_pattern d, led_amber_pattern d, led_green_pattern d,
                 led_blue_pattern d, led_white_pattern d, buzzer_mode d].
             \<not> (0 \<le> x \<and> x \<le> 255)"
  shows "get_bytes d = Inl StructError"
  unfolding get_bytes_def using assms by (rule pack_B_out_of_range)

lemma get_bytes_cases:
  "get_bytes d = Inl StructError \<or> (\<exists>p. get_bytes d = Inr p \<and> length p = 6)"
proof (cases "\<forall>x \<in> set [led_red_pattern d, led_amber_pattern d, led_green_pattern d,
                 led_blue_pattern d, led_white_pattern d, buzzer_mode d]. 0 \<le> x \<and> x \<le> 255")
  case True
  have "length (map word_of_int [led_red_pattern d, led_amber_pattern d, led_green_pattern d,
          led_blue_pattern d, led_white_pattern d, buzzer_mode d] :: bytes) = 6"
    by simp
  with get_bytes_in_range[OF True] show ?thesis by blast
next
  case False
  then have "\<exists>x \<in> set [led_red_pattern d, led_amber_pattern d, led_green_pattern d,
                 led_blue_pattern d, led_white_pattern d, buzzer_mode d].
             \<not> (0 \<le> x \<and> x \<le> 255)"
    by blast
  then show ?thesis by (simp only: get_bytes_out_of_range simp_thms)
qed

text \<open>
  Claim C9, amended. The field values are not checked against the pattern sets: for
  every six field values between 0 and 255, also outside {0..7,9} and {0,1,9},
  \<open>get_bytes\<close> succeeds and its six bytes are the six values in order. A value below 0
  or above 255 does not fit the format code \<^verbatim>\<open>B\<close>, and \<open>get_bytes\<close> raises
  \<^verbatim>\<open>struct.error\<close>.
\<close>

theorem get_bytes_passes_bytes_through:
  "((\<forall>x \<in> set [led_red_pattern d, led_amber_pattern d, led_green_pattern d,
                 led_blue_pattern d, led_white_pattern d, buzzer_mode d]. 0 \<le> x \<and> x \<le> 255)
     \<longrightarrow> (\<exists>p. get_bytes d = Inr p \<and> length p = 6
            \<and> map uint p = [led_red_pattern d, led_amber_pattern d, led_green_pattern d,
                            led_blue_pattern d, led_white_pattern d, buzzer_mode d]))
   \<and> ((\<exists>x \<in> set [led_red_pattern d, led_amber_pattern d, led_green_pattern d,
                 led_blue_pattern d, led_white_pattern d, buzzer_mode d].
          \<not> (0 \<le> x \<and> x \<le> 255))
     \<longrightarrow> get_bytes d = Inl StructError)"
proof (intro conjI impI)
  let ?xs = "[led_red_pattern d, led_amber_pattern d, led_green_pattern d,
              led_blue_pattern d, led_white_pattern d, buzzer_mode d]"
  assume r: "\<forall>x \<in> set ?xs. 0 \<le> x \<and> x \<le> 255"
  have g: "get_bytes d = Inr (map word_of_int ?xs)"
    unfolding get_bytes_def by (rule pack_B_in_range[OF r])
  have u: "map uint (map word_of_int ?xs :: bytes) = ?xs"
    by (rule map_uint_bytes_of_int[OF r])
  have l: "length (map word_of_int ?xs :: bytes) = 6"
    by simp
  show "\<exists>p. get_bytes d = Inr p \<and> length p = 6 \<and> map uint p = ?xs"
    by (rule exI[of _ "map word_of_int ?xs"]) (intro conjI g l u)
next
  let ?xs = "[led_red_pattern d, led_amber_pattern d, led_green_pattern d,
              led_blue_pattern d, led_white_pattern d, buzzer_mode d]"
  assume "\<exists>x \<in> set ?xs. \<not> (0 \<le> x \<and> x \<le> 255)"
  then show "get_bytes d = Inl StructError"
    unfolding get_bytes_def by (rule pack_B_out_of_range)
qed

theorem get_bytes_passes_bytes_through_witness:
  "get_bytes \<lparr>led_red_pattern = 8, led_amber_pattern = 200, led_green_pattern = 0,
               led_blue_pattern = 255, led_white_pattern = 10, buzzer_mode = 2\<rparr>
     = Inr [8, 200, 0, 255, 10, 2]
   \<and> get_bytes \<lparr>led_red_pattern = 1, led_amber_pattern = 0, led_green_pattern = - 1,
               led_blue_pattern = 0, led_white_pattern = 0, buzzer_mode = 0\<rparr>
     = Inl StructError"
  using
    get_bytes_passes_bytes_through
      [of "\<lparr>led_red_pattern = 8, led_amber_pattern = 200, led_green_pattern = 0,
             led_blue_pattern = 255, led_white_pattern = 10, buzzer_mode = 2\<rparr>"]
    get_bytes_passes_bytes_through
      [of "\<lparr>led_red_pattern = 1, led_amber_pattern = 0, led_green_pattern = - 1,
             led_blue_pattern = 0, led_white_pattern = 0, buzzer_mode = 0\<rparr>"]
  by (simp add: get_bytes_def bind_res_def)

text \<open>
  Claim C9 as stated fails: the field value 256 is an integer the front end can pass
  (\<^verbatim>\<open>main.py S 256 0 0 0 0 0\<close>), and \<open>get_bytes\<close> raises \<^verbatim>\<open>struct.error\<close> on it.
\<close>

theorem get_bytes_every_integer_counterexample:
  "get_bytes \<lparr>led_red_pattern = 256, led_amber_pattern = 0, led_green_pattern = 0,
               led_blue_pattern = 0, led_white_pattern = 0, buzzer_mode = 0\<rparr>
     = Inl StructError"
  by (simp add: get_bytes_def)

subsection \<open>Decoding of the status data\<close>

lemma init_long_fields:
  "6 \<le> length r \<Longrightarrow>
   PnsStatusData_init r =
     Inr \<lparr>priv_ledPattern = [r ! 0, r ! 1, r ! 2, r ! 3, r ! 4], priv_buzzer = uint (r ! 5)\<rparr>"
  by (simp add: init_long slice_0_5)

lemma bytes_at_append: "valid_ref h r \<Longrightarrow> bytes_at (h @ xs) r = bytes_at h r"
  by (cases r) (simp_all add: nth_append)

lemma new_bytes_five: "new_bytes [a, b, c, d, e] h = (Obj (length h), h @ [[a, b, c, d, e]])"
  by (simp add: new_bytes_def)

lemma slice_obj_0_5:
  assumes "6 \<le> length (bytes_at h r)"
  shows "slice_obj r 0 5 h = (Obj (length h), h @ [slice (bytes_at h r) 0 5])"
proof -
  let ?b = "bytes_at h r"
  have s: "slice ?b 0 5 = [?b ! 0, ?b ! 1, ?b ! 2, ?b ! 3, ?b ! 4]"
    using assms by (rule slice_0_5)
  have l: "length (slice ?b 0 5) \<noteq> length ?b"
    using assms by (simp add: s)
  have n: "slice ?b 0 5 \<noteq> []"
    by (simp add: s)
  have "slice_obj r 0 5 h = new_bytes (slice ?b 0 5) h"
    using l n by (simp add: slice_obj_def Let_def)
  also have "\<dots> = (Obj (length h), h @ [slice ?b 0 5])"
    by (simp only: s new_bytes_five)
  finally show ?thesis .
qed

lemma init_obj_long:
  assumes "valid_ref h r" and "6 \<le> length (bytes_at h r)"
  shows "PnsStatusData_init_obj r h =
           (Inr \<lparr>ref_ledPattern = Obj (length h), obj_buzzer = uint (bytes_at h r ! 5)\<rparr>,
            h @ [slice (bytes_at h r) 0 5])"
  using assms(2)
  by (simp add: PnsStatusData_init_obj_def slice_obj_0_5[OF assms(2)]
      bytes_at_append[OF assms(1)] getitem_def)

lemma slice_all_obj_eq:
  "slice_all_obj r h = (if bytes_at h r = [] then Empty_bytes else r, h)"
  by (simp add: slice_all_obj_def slice_obj_def slice_def Let_def)

text \<open>
  Claim C6, amended. For every input of at least six bytes the constructor succeeds,
  stores \<^verbatim>\<open>data[0:5]\<close> as the LED patterns (index 0 red, 1 amber, 2 green, 3 blue,
  4 white) and \<^verbatim>\<open>data[5]\<close> as the buzzer mode; the input 00 01 02 03 04 09 gives the
  patterns 0,1,2,3,4 and the buzzer mode 9. On objects: the constructor allocates
  one new object for the patterns and leaves its input as it was; the property
  \<open>ledPattern\<close> returns bytes equal to the stored ones and changes no object, but it
  makes no copy: on a constructed status it returns the stored object itself.
\<close>

theorem status_data_decodes_first_six_bytes:
  "(6 \<le> length data \<longrightarrow>
      (\<exists>s. PnsStatusData_init data = Inr s
           \<and> priv_ledPattern s = slice data 0 5
           \<and> ledPattern s = [data ! 0, data ! 1, data ! 2, data ! 3, data ! 4]
           \<and> ledPattern s = priv_ledPattern s
           \<and> buzzer s = uint (data ! 5)))
   \<and> PnsStatusData_init [0x00, 0x01, 0x02, 0x03, 0x04, 0x09]
       = Inr \<lparr>priv_ledPattern = [0, 1, 2, 3, 4], priv_buzzer = 9\<rparr>
   \<and> ledPattern \<lparr>priv_ledPattern = [0, 1, 2, 3, 4], priv_buzzer = 9\<rparr> = [0, 1, 2, 3, 4]
   \<and> buzzer \<lparr>priv_ledPattern = [0, 1, 2, 3, 4], priv_buzzer = 9\<rparr> = 9
   \<and> (valid_ref h r \<and> 6 \<le> length (bytes_at h r) \<longrightarrow>
      (\<exists>so h1. PnsStatusData_init_obj r h = (Inr so, h1)
           \<and> bytes_at h1 (ref_ledPattern so) = slice (bytes_at h r) 0 5
           \<and> obj_buzzer so = uint (bytes_at h r ! 5)
           \<and> bytes_at h1 r = bytes_at h r
           \<and> ledPattern_obj so h1 = (ref_ledPattern so, h1)))
   \<and> snd (ledPattern_obj s' h') = h'
   \<and> bytes_at h' (fst (ledPattern_obj s' h')) = bytes_at h' (ref_ledPattern s')"
proof (intro conjI impI)
  assume l: "6 \<le> length data"
  show "\<exists>s. PnsStatusData_init data = Inr s
           \<and> priv_ledPattern s = slice data 0 5
           \<and> ledPattern s = [data ! 0, data ! 1, data ! 2, data ! 3, data ! 4]
           \<and> ledPattern s = priv_ledPattern s
           \<and> buzzer s = uint (data ! 5)"
    using l by (simp add: init_long ledPattern_stored buzzer_def slice_0_5)
next
  show "PnsStatusData_init [0x00, 0x01, 0x02, 0x03, 0x04, 0x09]
       = Inr \<lparr>priv_ledPattern = [0, 1, 2, 3, 4], priv_buzzer = 9\<rparr>"
    by (simp add: init_long_fields)
next
  show "ledPattern \<lparr>priv_ledPattern = [0, 1, 2, 3, 4], priv_buzzer = 9\<rparr> = [0, 1, 2, 3, 4]"
    by (simp add: ledPattern_stored)
next
  show "buzzer \<lparr>priv_ledPattern = [0, 1, 2, 3, 4], priv_buzzer = 9\<rparr> = 9"
    by (simp add: buzzer_def)
next
  assume a: "valid_ref h r \<and> 6 \<le> length (bytes_at h r)"
  let ?b = "bytes_at h r"
  let ?so = "\<lparr>ref_ledPattern = Obj (length h), obj_buzzer = uint (?b ! 5)\<rparr>"
  let ?h1 = "h @ [slice ?b 0 5]"
  from a have v: "valid_ref h r" and l: "6 \<le> length ?b" by simp_all
  have i: "PnsStatusData_init_obj r h = (Inr ?so, ?h1)"
    by (rule init_obj_long[OF v l])
  have c: "bytes_at ?h1 (ref_ledPattern ?so) = slice ?b 0 5"
    by simp
  have ne: "slice ?b 0 5 \<noteq> []"
    by (simp add: slice_0_5[OF l])
  have g: "ledPattern_obj ?so ?h1 = (ref_ledPattern ?so, ?h1)"
    using ne by (simp add: ledPattern_obj_def slice_all_obj_eq)
  show "\<exists>so h1. PnsStatusData_init_obj r h = (Inr so, h1)
           \<and> bytes_at h1 (ref_ledPattern so) = slice (bytes_at h r) 0 5
           \<and> obj_buzzer so = uint (bytes_at h r ! 5)
           \<and> bytes_at h1 r = bytes_at h r
           \<and> ledPattern_obj so h1 = (ref_ledPattern so, h1)"
  proof (intro exI)
    show "PnsStatusData_init_obj r h = (Inr ?so, ?h1)
           \<and> bytes_at ?h1 (ref_ledPattern ?so) = slice (bytes_at h r) 0 5
           \<and> obj_buzzer ?so = uint (bytes_at h r ! 5)
           \<and> bytes_at ?h1 r = bytes_at h r
           \<and> ledPattern_obj ?so ?h1 = (ref_ledPattern ?so, ?h1)"
      using i c g bytes_at_append[OF v, of "[slice ?b 0 5]"] by simp
  qed
next
  show "snd (ledPattern_obj s' h') = h'"
    by (simp add: ledPattern_obj_def slice_all_obj_eq)
next
  show "bytes_at h' (fst (ledPattern_obj s' h')) = bytes_at h' (ref_ledPattern s')"
    by (simp add: ledPattern_obj_def slice_all_obj_eq)
qed

theorem status_data_decodes_first_six_bytes_witness:
  "(\<exists>s. PnsStatusData_init [0x06, 1, 0, 2, 0, 9, 1, 0xFF] = Inr s
        \<and> ledPattern s = [0x06, 1, 0, 2, 0] \<and> buzzer s = 9)
   \<and> (\<exists>so h1. PnsStatusData_init_obj (Obj 0) [[0x06, 1, 0, 2, 0, 9, 1, 0xFF]] = (Inr so, h1)
        \<and> bytes_at h1 (ref_ledPattern so) = [0x06, 1, 0, 2, 0]
        \<and> obj_buzzer so = 9
        \<and> bytes_at h1 (Obj 0) = [0x06, 1, 0, 2, 0, 9, 1, 0xFF]
        \<and> ledPattern_obj so h1 = (ref_ledPattern so, h1))"
  using status_data_decodes_first_six_bytes
    [of "[0x06, 1, 0, 2, 0, 9, 1, 0xFF]" "[[0x06, 1, 0, 2, 0, 9, 1, 0xFF]]" "Obj 0"]
  by (auto simp: slice_def)

text \<open>
  Claim C6 as stated fails in its last clause: the property returns no copy. The
  status constructed from the object 00 01 02 03 04 09 stores its patterns in the
  object allocated at position 1, and the property returns that very object and
  allocates nothing: \<^verbatim>\<open>self._ledPattern[:]\<close> is a slice of the whole of a \<^verbatim>\<open>bytes\<close>
  object.
\<close>

theorem ledPattern_defensive_copy_counterexample:
  "PnsStatusData_init_obj (Obj 0) [[0x00, 0x01, 0x02, 0x03, 0x04, 0x09]]
     = (Inr \<lparr>ref_ledPattern = Obj 1, obj_buzzer = 9\<rparr>,
        [[0x00, 0x01, 0x02, 0x03, 0x04, 0x09], [0x00, 0x01, 0x02, 0x03, 0x04]])
   \<and> ledPattern_obj \<lparr>ref_ledPattern = Obj 1, obj_buzzer = 9\<rparr>
        [[0x00, 0x01, 0x02, 0x03, 0x04, 0x09], [0x00, 0x01, 0x02, 0x03, 0x04]]
     = (Obj 1, [[0x00, 0x01, 0x02, 0x03, 0x04, 0x09], [0x00, 0x01, 0x02, 0x03, 0x04]])
   \<and> fst (ledPattern_obj \<lparr>ref_ledPattern = Obj 1, obj_buzzer = 9\<rparr>
        [[0x00, 0x01, 0x02, 0x03, 0x04, 0x09], [0x00, 0x01, 0x02, 0x03, 0x04]])
     = ref_ledPattern \<lparr>ref_ledPattern = Obj 1, obj_buzzer = 9\<rparr>"
  by (simp add: init_obj_long slice_def ledPattern_obj_def slice_all_obj_eq)

text \<open>
  Claim C10. The constructor depends on the first six bytes of its input only: two
  inputs of length at least six that agree on bytes 0 to 5 both construct a status,
  with equal LED patterns and equal buzzer modes. A reply is what \<^verbatim>\<open>recv(1024)\<close>
  returned, so it has at most 1024 bytes, and the bytes after the sixth are ignored.
\<close>

theorem status_data_ignores_trailing_bytes:
  assumes "6 \<le> length d1" and "6 \<le> length d2" and "take 6 d1 = take 6 d2"
  shows "(\<exists>s1 s2. PnsStatusData_init d1 = Inr s1 \<and> PnsStatusData_init d2 = Inr s2
            \<and> ledPattern s1 = ledPattern s2 \<and> buzzer s1 = buzzer s2)
         \<and> PnsStatusData_init d1 = PnsStatusData_init d2
         \<and> (send_command n f w = (Inr d1, w') \<longrightarrow> length d1 \<le> 1024)"
proof -
  have nth: "d1 ! i = d2 ! i" if "i < 6" for i
  proof -
    have "d1 ! i = take 6 d1 ! i" using that by simp
    also have "\<dots> = take 6 d2 ! i" by (simp only: assms(3))
    also have "\<dots> = d2 ! i" using that by simp
    finally show ?thesis .
  qed
  have eq: "PnsStatusData_init d1 = PnsStatusData_init d2"
    using assms(1,2) by (simp add: init_long_fields nth)
  have ex: "\<exists>s1. PnsStatusData_init d1 = Inr s1"
    using assms(1) by (simp add: init_long_fields)
  have len: "length d1 \<le> 1024" if "send_command n f w = (Inr d1, w')"
    using that
    by (auto simp: send_command_def Let_def split: if_splits option.splits)
  from eq ex len show ?thesis by auto
qed

theorem status_data_ignores_trailing_bytes_witness:
  "send_command (replying [0x06, 1, 0, 2, 0, 9, 7, 7, 7]) [0x41, 0x42, 0x47, 0, 0, 0] world0
     = (Inr [0x06, 1, 0, 2, 0, 9, 7, 7, 7],
        \<lparr>calls = [Send [0x41, 0x42, 0x47, 0, 0, 0], Recv 1024], stdout = []\<rparr>)
   \<and> PnsStatusData_init [0x06, 1, 0, 2, 0, 9, 7, 7, 7] = PnsStatusData_init [0x06, 1, 0, 2, 0, 9]
   \<and> PnsStatusData_init [0x06, 1, 0, 2, 0, 9, 7, 7, 7]
       = Inr \<lparr>priv_ledPattern = [0x06, 1, 0, 2, 0], priv_buzzer = 9\<rparr>"
  using status_data_ignores_trailing_bytes
    [of "[0x06, 1, 0, 2, 0, 9, 7, 7, 7]" "[0x06, 1, 0, 2, 0, 9]"
        "replying [0x06, 1, 0, 2, 0, 9, 7, 7, 7]" "[0x41, 0x42, 0x47, 0, 0, 0]" world0
        "\<lparr>calls = [Send [0x41, 0x42, 0x47, 0, 0, 0], Recv 1024], stdout = []\<rparr>"]
  by (simp add: init_long_fields send_replying)

subsection \<open>Replies that are too short\<close>

text \<open>
  Claim C5, amended. A reply shorter than the decode needs makes the operation fail,
  but the program has no length check and no error of its own for it: what is raised
  is Python's \<open>IndexError\<close>, by the index expression that is out of range. On an
  empty reply each of the three commands raises it at \<^verbatim>\<open>recv_data[0]\<close>. On a reply of
  one to five bytes \<open>pns_get_data_command\<close> raises it at \<^verbatim>\<open>data[5]\<close>, unless the
  first byte is 0x15: then the check before the decode raises the negative acknowledge
  error. The constructor raises \<open>IndexError\<close> at \<^verbatim>\<open>data[5]\<close> on every input shorter
  than six bytes, the two byte input 06 00 among them.
\<close>

theorem short_reply_raises:
  "(get_bytes d = Inr p \<and> send_command n ([0x41, 0x42, 0x53, 0, 0, 6] @ p) w = (Inr [], w')
      \<longrightarrow> pns_run_control_command n d w = (Inl IndexError, w'))
   \<and> (send_command n [0x41, 0x42, 0x43, 0, 0, 0] w = (Inr [], w')
      \<longrightarrow> pns_clear_command n w = (Inl IndexError, w'))
   \<and> (send_command n [0x41, 0x42, 0x47, 0, 0, 0] w = (Inr reply, w') \<and> length reply < 6
      \<longrightarrow> pns_get_data_command n w =
            (if reply \<noteq> [] \<and> hd reply = 0x15 then Inl (ValueError ''negative acknowledge'')
             else Inl IndexError, w'))
   \<and> (length data < 6
      \<longrightarrow> getitem data 5 = Inl IndexError \<and> PnsStatusData_init data = Inl IndexError)
   \<and> getitem [] 0 = Inl IndexError
   \<and> PnsStatusData_init [0x06, 0x00] = Inl IndexError"
proof (intro conjI impI)
  assume "get_bytes d = Inr p \<and>
    send_command n ([0x41, 0x42, 0x53, 0, 0, 6] @ p) w = (Inr [], w')"
  then show "pns_run_control_command n d w = (Inl IndexError, w')"
    by (simp add: run_control_eq bind_io_def check_response_eq)
next
  assume "send_command n [0x41, 0x42, 0x43, 0, 0, 0] w = (Inr [], w')"
  then show "pns_clear_command n w = (Inl IndexError, w')"
    by (simp add: clear_eq bind_io_def check_response_eq)
next
  assume a: "send_command n [0x41, 0x42, 0x47, 0, 0, 0] w = (Inr reply, w') \<and> length reply < 6"
  then have i: "PnsStatusData_init reply = Inl IndexError"
    by (simp add: init_short)
  show "pns_get_data_command n w =
          (if reply \<noteq> [] \<and> hd reply = 0x15 then Inl (ValueError ''negative acknowledge'')
           else Inl IndexError, w')"
    using a i by (simp add: get_data_eq bind_io_def check_response_eq lift_io_def)
next
  assume "length data < 6"
  then show "getitem data 5 = Inl IndexError" by (simp add: getitem_def)
next
  assume "length data < 6"
  then show "PnsStatusData_init data = Inl IndexError" by (rule init_short)
next
  show "getitem [] 0 = Inl IndexError" by (simp add: getitem_def)
next
  show "PnsStatusData_init [0x06, 0x00] = Inl IndexError"
    by (simp add: init_short)
qed

theorem short_reply_raises_witness:
  "pns_run_control_command (replying [])
       \<lparr>led_red_pattern = 1, led_amber_pattern = 0, led_green_pattern = 2,
        led_blue_pattern = 0, led_white_pattern = 9, buzzer_mode = 1\<rparr> world0
     = (Inl IndexError,
        \<lparr>calls = [Send [0x41, 0x42, 0x53, 0, 0, 6, 1, 0, 2, 0, 9, 1], Recv 1024], stdout = []\<rparr>)
   \<and> pns_clear_command (replying []) world0
     = (Inl IndexError, \<lparr>calls = [Send [0x41, 0x42, 0x43, 0, 0, 0], Recv 1024], stdout = []\<rparr>)
   \<and> pns_get_data_command (replying [0x06, 0x00]) world0
     = (Inl IndexError, \<lparr>calls = [Send [0x41, 0x42, 0x47, 0, 0, 0], Recv 1024], stdout = []\<rparr>)
   \<and> pns_get_data_command (replying [0x15, 0x00]) world0
     = (Inl (ValueError ''negative acknowledge''),
        \<lparr>calls = [Send [0x41, 0x42, 0x47, 0, 0, 0], Recv 1024], stdout = []\<rparr>)
   \<and> PnsStatusData_init [0x06, 0x00, 0x01] = Inl IndexError"
  using
    short_reply_raises
      [where n = "replying []" and w = world0 and p = "[1, 0, 2, 0, 9, 1]"
         and d = "\<lparr>led_red_pattern = 1, led_amber_pattern = 0, led_green_pattern = 2,
                   led_blue_pattern = 0, led_white_pattern = 9, buzzer_mode = 1\<rparr>"
         and w' = "\<lparr>calls = [Send [0x41, 0x42, 0x53, 0, 0, 6, 1, 0, 2, 0, 9, 1], Recv 1024],
                    stdout = []\<rparr>"]
    short_reply_raises
      [where n = "replying []" and w = world0
         and w' = "\<lparr>calls = [Send [0x41, 0x42, 0x43, 0, 0, 0], Recv 1024], stdout = []\<rparr>"]
    short_reply_raises
      [where n = "replying [0x06, 0x00]" and w = world0 and reply = "[0x06, 0x00]"
         and data = "[0x06, 0x00, 0x01]"
         and w' = "\<lparr>calls = [Send [0x41, 0x42, 0x47, 0, 0, 0], Recv 1024], stdout = []\<rparr>"]
    short_reply_raises
      [where n = "replying [0x15, 0x00]" and w = world0 and reply = "[0x15, 0x00]"
         and w' = "\<lparr>calls = [Send [0x41, 0x42, 0x47, 0, 0, 0], Recv 1024], stdout = []\<rparr>"]
  by (simp add: send_replying get_bytes_example)

text \<open>
  Claim C5 as stated fails on its own example. Constructing the status from the two
  bytes 06 00 does fail, but with Python's \<open>IndexError\<close>, and it is the index
  expression \<^verbatim>\<open>data[5]\<close> that raises it, after the slice \<^verbatim>\<open>data[0:5]\<close> has been taken
  from the same two bytes: nothing is raised before the missing byte is indexed, and
  the program has no error of its own for an incomplete reply. It also fails on the one
  byte reply 15: shorter than six bytes, and \<open>pns_get_data_command\<close> raises the
  negative acknowledge error on it.
\<close>

theorem status_data_short_input_counterexample:
  "length [0x06, 0x00 :: byte] < 6
   \<and> slice [0x06, 0x00] 0 5 = [0x06, 0x00]
   \<and> getitem [0x06, 0x00] 5 = Inl IndexError
   \<and> PnsStatusData_init [0x06, 0x00] = bind_res (getitem [0x06, 0x00] 5)
         (\<lambda>bz. Inr \<lparr>priv_ledPattern = [0x06, 0x00], priv_buzzer = bz\<rparr>)
   \<and> PnsStatusData_init [0x06, 0x00] = Inl IndexError
   \<and> length [0x15 :: byte] < 6
   \<and> fst (pns_get_data_command (replying [0x15]) world0)
       = Inl (ValueError ''negative acknowledge'')"
  by (simp add: PnsStatusData_init_def slice_def getitem_def bind_res_def
      get_data_eq send_replying bind_io_def check_response_eq)

subsection \<open>The frame read back\<close>

lemma led_code_is_byte: "v \<in> {0, 1, 2, 3, 4, 5, 6, 7, 9 :: int} \<Longrightarrow> 0 \<le> v \<and> v \<le> 255"
  by auto

lemma buzzer_code_is_byte: "v \<in> {0, 1, 9 :: int} \<Longrightarrow> 0 \<le> v \<and> v \<le> 255"
  by auto

lemma frame_consistent_run_control:
  "length p = 6 \<Longrightarrow> frame_consistent ([0x41, 0x42, 0x53, 0, 0, 6] @ p)"
  by (simp add: frame_consistent_def spec_parse_frame_def)

lemma run_control_world:
  "get_bytes d = Inr p \<Longrightarrow>
   snd (pns_run_control_command n d w) = snd (send_command n ([0x41, 0x42, 0x53, 0, 0, 6] @ p) w)"
  by (simp add: run_control_eq send_then_check_world)

lemma run_control_frames:
  "\<exists>fs. sent (snd (pns_run_control_command n d w)) = sent w @ fs \<and> list_all frame_consistent fs"
proof -
  from get_bytes_cases[of d] show ?thesis
  proof
    assume "get_bytes d = Inl StructError"
    then have "sent (snd (pns_run_control_command n d w)) = sent w @ []"
      by (simp add: run_control_pack_error)
    moreover have "list_all frame_consistent []" by simp
    ultimately show ?thesis by blast
  next
    assume "\<exists>p. get_bytes d = Inr p \<and> length p = 6"
    then obtain p where p: "get_bytes d = Inr p" "length p = 6" by blast
    have "sent (snd (pns_run_control_command n d w)) = sent w @ [[0x41, 0x42, 0x53, 0, 0, 6] @ p]"
      by (simp only: run_control_world[OF p(1)] sent_send_command)
    moreover have "list_all frame_consistent [[0x41, 0x42, 0x53, 0, 0, 6] @ p]"
      using frame_consistent_run_control[OF p(2)] by simp
    ultimately show ?thesis by blast
  qed
qed

lemma clear_frames:
  "\<exists>fs. sent (snd (pns_clear_command n w)) = sent w @ fs \<and> list_all frame_consistent fs"
proof -
  have "sent (snd (pns_clear_command n w)) = sent w @ [[0x41, 0x42, 0x43, 0, 0, 0]]"
    by (simp add: clear_eq send_then_check_world sent_send_command)
  moreover have "list_all frame_consistent [[0x41, 0x42, 0x43, 0, 0, 0]]"
    by (simp add: frame_consistent_def spec_parse_frame_def)
  ultimately show ?thesis by blast
qed

lemma get_data_frames:
  "\<exists>fs. sent (snd (pns_get_data_command n w)) = sent w @ fs \<and> list_all frame_consistent fs"
proof -
  have "sent (snd (pns_get_data_command n w)) = sent w @ [[0x41, 0x42, 0x47, 0, 0, 0]]"
    by (simp add: get_data_world sent_send_command)
  moreover have "list_all frame_consistent [[0x41, 0x42, 0x47, 0, 0, 0]]"
    by (simp add: frame_consistent_def spec_parse_frame_def)
  ultimately show ?thesis by blast
qed

text \<open>
  Claim C4. Round trip: for every run control data whose five LED fields are in
  {0,1,2,3,4,5,6,7,9} and whose buzzer field is in {0,1,9}, the command hands one
  frame to \<^verbatim>\<open>send\<close>, and reading that frame back by the specification's layout
  gives the product category AB, the command identifier S (0x53), the data length 6
  and as payload the six bytes of \<open>get_bytes\<close>, whose values are the six fields. For
  every run control data and for the two other commands, every frame handed to
  \<^verbatim>\<open>send\<close> has a data length field equal to the length of its payload.
\<close>

theorem run_control_frame_round_trip:
  assumes "\<forall>v \<in> set [led_red_pattern d, led_amber_pattern d, led_green_pattern d,
                      led_blue_pattern d, led_white_pattern d]. v \<in> {0, 1, 2, 3, 4, 5, 6, 7, 9}"
      and "buzzer_mode d \<in> {0, 1, 9}"
  shows "(\<exists>f h. sent (snd (pns_run_control_command n d w)) = sent w @ [f]
            \<and> spec_parse_frame f = Some h
            \<and> product_id h = [0x41, 0x42] \<and> command_id h = 0x53 \<and> data_length h = 6
            \<and> get_bytes d = Inr (payload h)
            \<and> map uint (payload h) = [led_red_pattern d, led_amber_pattern d,
                 led_green_pattern d, led_blue_pattern d, led_white_pattern d, buzzer_mode d])
       \<and> (\<exists>fs. sent (snd (pns_run_control_command n d' w)) = sent w @ fs
            \<and> list_all frame_consistent fs)
       \<and> (\<exists>fs. sent (snd (pns_clear_command n w)) = sent w @ fs
            \<and> list_all frame_consistent fs)
       \<and> (\<exists>fs. sent (snd (pns_get_data_command n w)) = sent w @ fs
            \<and> list_all frame_consistent fs)"
proof -
  let ?xs = "[led_red_pattern d, led_amber_pattern d, led_green_pattern d,
              led_blue_pattern d, led_white_pattern d, buzzer_mode d]"
  let ?p = "map word_of_int ?xs :: bytes"
  let ?f = "[0x41, 0x42, 0x53, 0, 0, 6] @ ?p"
  let ?h = "\<lparr>product_id = [0x41, 0x42], command_id = 0x53, data_length = 6, payload = ?p\<rparr>"
  have leds: "\<forall>v \<in> set [led_red_pattern d, led_amber_pattern d, led_green_pattern d,
                      led_blue_pattern d, led_white_pattern d]. 0 \<le> v \<and> v \<le> 255"
  proof
    fix v
    assume "v \<in> set [led_red_pattern d, led_amber_pattern d, led_green_pattern d,
                      led_blue_pattern d, led_white_pattern d]"
    with assms(1) have "v \<in> {0, 1, 2, 3, 4, 5, 6, 7, 9}" by (rule bspec)
    then show "0 \<le> v \<and> v \<le> 255" by (rule led_code_is_byte)
  qed
  have buz: "0 \<le> buzzer_mode d \<and> buzzer_mode d \<le> 255"
    using assms(2) by (rule buzzer_code_is_byte)
  have r: "\<forall>x \<in> set ?xs. 0 \<le> x \<and> x \<le> 255"
    using leds buz by simp
  have g: "get_bytes d = Inr ?p" by (rule get_bytes_in_range[OF r])
  have u: "map uint ?p = ?xs" by (rule map_uint_bytes_of_int[OF r])
  have s: "sent (snd (pns_run_control_command n d w)) = sent w @ [?f]"
    by (simp only: run_control_world[OF g] sent_send_command)
  have h: "spec_parse_frame ?f = Some ?h"
    by (simp add: spec_parse_frame_def)
  have first: "\<exists>f h. sent (snd (pns_run_control_command n d w)) = sent w @ [f]
            \<and> spec_parse_frame f = Some h
            \<and> product_id h = [0x41, 0x42] \<and> command_id h = 0x53 \<and> data_length h = 6
            \<and> get_bytes d = Inr (payload h) \<and> map uint (payload h) = ?xs"
  proof (intro exI)
    show "sent (snd (pns_run_control_command n d w)) = sent w @ [?f]
      \<and> spec_parse_frame ?f = Some ?h
      \<and> product_id ?h = [0x41, 0x42] \<and> command_id ?h = 0x53 \<and> data_length ?h = 6
      \<and> get_bytes d = Inr (payload ?h) \<and> map uint (payload ?h) = ?xs"
      using s h g u by simp
  qed
  show ?thesis
    by (intro conjI first run_control_frames clear_frames get_data_frames)
qed

lemma sent_world0: "sent world0 = []"
  by (simp add: sent_def world0_def)

theorem run_control_frame_round_trip_witness:
  "\<exists>f h. sent (snd (pns_run_control_command (replying [0x06])
              \<lparr>led_red_pattern = 1, led_amber_pattern = 0, led_green_pattern = 2,
               led_blue_pattern = 0, led_white_pattern = 9, buzzer_mode = 1\<rparr> world0)) = [f]
        \<and> spec_parse_frame f = Some h
        \<and> product_id h = [0x41, 0x42] \<and> command_id h = 0x53 \<and> data_length h = 6
        \<and> get_bytes \<lparr>led_red_pattern = 1, led_amber_pattern = 0, led_green_pattern = 2,
               led_blue_pattern = 0, led_white_pattern = 9, buzzer_mode = 1\<rparr> = Inr (payload h)
        \<and> map uint (payload h) = [1, 0, 2, 0, 9, 1]"
  using run_control_frame_round_trip
    [of "\<lparr>led_red_pattern = 1, led_amber_pattern = 0, led_green_pattern = 2,
           led_blue_pattern = 0, led_white_pattern = 9, buzzer_mode = 1\<rparr>"
        "replying [0x06]" world0
        "\<lparr>led_red_pattern = 1, led_amber_pattern = 0, led_green_pattern = 2,
           led_blue_pattern = 0, led_white_pattern = 9, buzzer_mode = 1\<rparr>"]
  by (simp add: sent_world0)

subsection \<open>Closing the socket\<close>

lemma closes_record_call:
  "closes (record_call c w) = closes w + (if c = Close then 1 else 0)"
  by (simp add: closes_def record_call_def)

lemma closes_stdout: "closes (w\<lparr>stdout := out\<rparr>) = closes w"
  by (simp add: closes_def)

lemma closes_send_command: "closes (snd (send_command n f w)) = closes w"
  by (simp add: send_command_def Let_def closes_record_call split: option.split)

lemma closes_lift: "closes (snd (lift_io r w)) = closes w"
  by (simp add: lift_io_def)

lemma closes_return: "closes (snd (return_io x w)) = closes w"
  by (simp add: return_io_def)

lemma closes_print: "closes (snd (print s w)) = closes w"
  by (simp add: print_def closes_stdout)

lemma closes_bind:
  assumes "\<And>w. closes (snd (m w)) = closes w"
      and "\<And>x w. closes (snd (f x w)) = closes w"
  shows "closes (snd (bind_io m f w)) = closes w"
proof (cases "m w")
  case (Pair r w1)
  have w1: "closes w1 = closes w" using assms(1)[of w] Pair by simp
  show ?thesis
  proof (cases r)
    case (Inl e)
    with Pair w1 show ?thesis by (simp add: bind_io_def)
  next
    case (Inr x)
    with Pair w1 assms(2)[of x w1] show ?thesis by (simp add: bind_io_def)
  qed
qed

lemma closes_if:
  assumes "c \<Longrightarrow> closes (snd (a w)) = closes w"
      and "\<not> c \<Longrightarrow> closes (snd (b w)) = closes w"
  shows "closes (snd ((if c then a else b) w)) = closes w"
  using assms by (cases c) simp_all

lemma closes_arg_int: "closes (snd (arg_int int_of args i w)) = closes w"
  by (simp add: arg_int_def closes_lift)

lemma closes_print_led: "closes (snd (print_led label st i w)) = closes w"
  unfolding print_led_def by (intro closes_bind closes_lift closes_print)

lemma closes_clear: "closes (snd (pns_clear_command n w)) = closes w"
  by (simp add: clear_eq send_then_check_world closes_send_command)

lemma closes_get_data: "closes (snd (pns_get_data_command n w)) = closes w"
  by (simp add: get_data_world closes_send_command)

lemma closes_run_control: "closes (snd (pns_run_control_command n d w)) = closes w"
proof (cases "get_bytes d")
  case (Inl e)
  then show ?thesis by (simp add: run_control_pack_error)
next
  case (Inr p)
  then show ?thesis by (simp add: run_control_world closes_send_command)
qed

lemma closes_dispatch: "closes (snd (dispatch n int_of args w)) = closes w"
  unfolding dispatch_def Let_def
  by (intro closes_bind closes_if closes_lift closes_return closes_print closes_print_led
        closes_arg_int closes_clear closes_get_data closes_run_control)

lemma calls_try_finally_close:
  "calls (snd (try_finally body (socket_close n) w)) = calls (snd (body w)) @ [Close]"
  by (cases "body w") (simp add: try_finally_def socket_close_def record_call_def)

lemma closes_try_finally_close:
  "closes (snd (try_finally body (socket_close n) w)) = closes (snd (body w)) + 1"
  by (simp add: closes_def calls_try_finally_close)

lemma main_connected:
  "connect_ok n \<Longrightarrow>
   main n int_of args w =
     try_finally (dispatch n int_of args) (socket_close n)
       (record_call (Connect ''192.168.10.1'' 10000) w)"
  by (simp add: main_def bind_io_def socket_open_def)

lemma main_refused:
  "\<not> connect_ok n \<Longrightarrow>
   main n int_of args w = (Inl OSError, record_call (Connect ''192.168.10.1'' 10000) w)"
  by (simp add: main_def bind_io_def socket_open_def)

text \<open>
  Claim C7, amended. Once \<open>main\<close> has opened the connection, \<open>socket_close\<close> is called
  exactly once, as the last call on the socket, whether the command completes or
  fails with any error and whatever the arguments are. When opening the connection
  fails, \<open>main\<close> raises that error and \<open>socket_close\<close> is not called: the connection is
  opened before the \<^verbatim>\<open>try\<close> statement.
\<close>

theorem main_closes_once_after_connect:
  "(connect_ok n \<longrightarrow>
      closes (snd (main n int_of args w)) = closes w + 1
      \<and> last (calls (snd (main n int_of args w))) = Close)
   \<and> (\<not> connect_ok n \<longrightarrow>
      closes (snd (main n int_of args w)) = closes w
      \<and> fst (main n int_of args w) = Inl OSError)"
proof (intro conjI impI)
  assume c: "connect_ok n"
  show "closes (snd (main n int_of args w)) = closes w + 1"
    by (simp add: main_connected[OF c] closes_try_finally_close closes_dispatch
        closes_record_call)
  show "last (calls (snd (main n int_of args w))) = Close"
    by (simp add: main_connected[OF c] calls_try_finally_close)
next
  assume c: "\<not> connect_ok n"
  show "closes (snd (main n int_of args w)) = closes w"
    by (simp add: main_refused[OF c] closes_record_call)
  show "fst (main n int_of args w) = Inl OSError"
    by (simp add: main_refused[OF c])
qed

lemma main_clear_nak:
  "fst (main (replying [0x15]) (\<lambda>s. Inr 0) [''main.py'', ''C''] world0)
     = Inl (ValueError ''negative acknowledge'')"
  by (simp add: main_def bind_io_def socket_open_def try_finally_def socket_close_def
      dispatch_def getitem_list_def lift_io_def clear_eq send_command_def record_call_def
      check_response_eq replying_def world0_def)

theorem main_closes_once_after_connect_witness:
  "fst (main (replying [0x15]) (\<lambda>s. Inr 0) [''main.py'', ''C''] world0)
     = Inl (ValueError ''negative acknowledge'')
   \<and> closes (snd (main (replying [0x15]) (\<lambda>s. Inr 0) [''main.py'', ''C''] world0)) = 1
   \<and> last (calls (snd (main (replying [0x15]) (\<lambda>s. Inr 0) [''main.py'', ''C''] world0))) = Close
   \<and> closes (snd (main refusing (\<lambda>s. Inr 0) [''main.py'', ''C''] world0)) = 0
   \<and> fst (main refusing (\<lambda>s. Inr 0) [''main.py'', ''C''] world0) = Inl OSError"
  using
    main_closes_once_after_connect [of "replying [0x15]" "\<lambda>s. Inr 0" "[''main.py'', ''C'']" world0]
    main_closes_once_after_connect [of refusing "\<lambda>s. Inr 0" "[''main.py'', ''C'']" world0]
    main_clear_nak
  by (simp add: replying_def refusing_def closes_def world0_def)

text \<open>
  Claim C7 as stated fails for an error raised while opening the connection: when the
  device refuses the connection, \<open>main\<close> raises the error with \<^verbatim>\<open>connect\<close> as the only
  call on the socket, and \<open>socket_close\<close> is not called.
\<close>

theorem main_close_on_connect_error_counterexample:
  "fst (main refusing (\<lambda>s. Inr 0) [''main.py'', ''C''] world0) = Inl OSError
   \<and> calls (snd (main refusing (\<lambda>s. Inr 0) [''main.py'', ''C''] world0))
       = [Connect ''192.168.10.1'' 10000]
   \<and> closes (snd (main refusing (\<lambda>s. Inr 0) [''main.py'', ''C''] world0)) = 0"
  by (simp add: main_def bind_io_def socket_open_def refusing_def record_call_def
      world0_def closes_def)

subsection \<open>Run control without its six arguments\<close>

lemma dispatch_missing_arguments:
  assumes "1 < length args" and "args ! 1 = ''S''" and "length args < 8"
  shows "dispatch n int_of args w = (Inr (), w)"
  using assms
  by (simp add: dispatch_def Let_def getitem_list_def bind_io_lift_Inr return_io_def)

text \<open>
  Claim C8. When the command S is selected and fewer than six arguments follow it
  (\<^verbatim>\<open>argc < 8\<close>), the dispatch builds no frame, makes no call on the socket, prints
  nothing and raises nothing. For \<open>main\<close> as a whole no frame is handed to \<^verbatim>\<open>send\<close>:
  the socket sees \<^verbatim>\<open>connect\<close> and \<^verbatim>\<open>close\<close> only, and \<open>main\<close> returns normally unless
  one of these two socket calls itself fails.
\<close>

theorem run_control_missing_arguments_is_silent:
  assumes "1 < length args" and "args ! 1 = ''S''" and "length args < 8"
  shows "dispatch n int_of args w = (Inr (), w)
       \<and> sent (snd (main n int_of args w)) = sent w
       \<and> main n int_of args w =
           (if connect_ok n
            then (if close_ok n then Inr () else Inl OSError,
                  w\<lparr>calls := calls w @ [Connect ''192.168.10.1'' 10000, Close]\<rparr>)
            else (Inl OSError, w\<lparr>calls := calls w @ [Connect ''192.168.10.1'' 10000]\<rparr>))"
proof -
  note d = dispatch_missing_arguments[OF assms]
  have m: "main n int_of args w =
           (if connect_ok n
            then (if close_ok n then Inr () else Inl OSError,
                  w\<lparr>calls := calls w @ [Connect ''192.168.10.1'' 10000, Close]\<rparr>)
            else (Inl OSError, w\<lparr>calls := calls w @ [Connect ''192.168.10.1'' 10000]\<rparr>))"
  proof (cases "connect_ok n")
    case True
    then show ?thesis
      by (simp add: main_connected try_finally_def d socket_close_def record_call_def)
  next
    case False
    then show ?thesis
      by (simp add: main_refused record_call_def)
  qed
  have s: "sent (snd (main n int_of args w)) = sent w"
    by (simp add: m sent_def sent_of_append)
  from d s m show ?thesis by (intro conjI)
qed

theorem run_control_missing_arguments_is_silent_witness:
  "dispatch (replying [0x06]) (\<lambda>s. Inr 0) [''main.py'', ''S'', ''1'', ''0''] world0
     = (Inr (), world0)
   \<and> main (replying [0x06]) (\<lambda>s. Inr 0) [''main.py'', ''S'', ''1'', ''0''] world0
     = (Inr (), \<lparr>calls = [Connect ''192.168.10.1'' 10000, Close], stdout = []\<rparr>)"
  using run_control_missing_arguments_is_silent
    [of "[''main.py'', ''S'', ''1'', ''0'']" "replying [0x06]" "\<lambda>s. Inr 0" world0]
  by (simp add: replying_def world0_def)

end
